theory Spec2Isabelle
  imports Main
begin

section \<open>Express requests and responses\<close>

text \<open>
  Both servers are Express applications: a handler is a JavaScript function of the request
  \<open>req\<close> and the response \<open>res\<close>. The model keeps the parts of \<open>req\<close> the two files
  read: \<open>req.headers\<close> (Node lower-cases the header names), \<open>req.path\<close> and
  \<open>req.query\<close>. A value of \<open>req.query\<close> is a string, an array or a nested object; a
  key that is not in the query reads as \<open>undefined\<close>, here \<open>None\<close> of the lookup.
\<close>

datatype qval = QString string | QArray "qval list" | QObject "(string \<times> qval) list"

record request =
  headers :: "(string \<times> string) list"
  path :: string
  query :: "(string \<times> qval) list"

text \<open>
  Values of JSON text after \<open>JSON.parse\<close>. A number is kept as the text that
  JavaScript's conversion of numbers to strings gives it, with two numbers apart: a
  literal too large for a double (\<open>1e999\<close>) parses to the number of text \<open>Infinity\<close>
  (\<open>-Infinity\<close> for its negative), and negative zero, whose text would be that of zero,
  is kept as \<open>-0\<close>. An object is the list of its own properties, each name once, in
  property order (the names that are array indices first, ascending, then the others in
  the order of the text).
\<close>

datatype json = JNull | JBool bool | JNum string | JStr string | JArr "json list"
  | JObj "(string \<times> json) list"

datatype body = Json json | Text string

record response =
  status :: nat
  body :: body

text \<open>
  What a handler does besides answering: the lines it prints (each \<open>console.log\<close> and
  \<open>console.error\<close> of the two files is one constructor, with the values interpolated
  into its text) and the calls it makes to the file system. The sources quoted below are
  given without the emoji that open their log lines.
\<close>

datatype js_error = ReadError | SyntaxError | TypeError

datatype event =
    LogCheckRequested
  | LogMetadataNotFound string
  | LogSignedUrlGenerated
  | LogErrorReadingMetadata js_error
  | LogBlocked string
  | LogServing string
  | ExistsSync string
  | ReadFileSync string

section \<open>cdn.js: the guard in front of the files\<close>

text \<open>
  \<^verbatim>\<open>
  const secureGuard = (req, res, next) => {
      const token = req.query.token;
      if (token !== 'secure-signature') {
          console.log(`Blocked access to ${req.path} (Missing/Invalid Token)`);
          return res.status(403).send('Forbidden: Invalid Signature');
      }
      console.log(`Serving ${req.path}`);
      next();
  };
  \<close>
  The guard either answers itself or calls \<open>next\<close>, which hands the request to
  \<open>express.static\<close>.
\<close>

datatype outcome = Responded response | Next

definition secureGuard :: "request \<Rightarrow> outcome \<times> event list" where
  "secureGuard req =
     (let token = map_of (query req) ''token'' in
      if token \<noteq> Some (QString ''secure-signature'')
      then (Responded \<lparr>status = 403, body = Text ''Forbidden: Invalid Signature''\<rparr>,
            [LogBlocked (path req)])
      else (Next, [LogServing (path req)]))"

text \<open>
  \<^verbatim>\<open>app.use('/files', secureGuard, express.static(path.join(__dirname, 'storage')));\<close>
  The route runs the guard on the request alone. Nothing in cdn.js reads the clock;
  \<open>files_route now req\<close> is the route run when the server's clock reads \<open>now\<close>
  (milliseconds since the epoch, as \<open>Date.now()\<close> would give).
\<close>

definition files_route :: "nat \<Rightarrow> request \<Rightarrow> outcome \<times> event list" where
  "files_route now req = secureGuard req"

definition forbidden :: response where
  "forbidden = \<lparr>status = 403, body = Text ''Forbidden: Invalid Signature''\<rparr>"

section \<open>api.js: the update check\<close>

text \<open>
  What api.js takes from Node: \<open>__dirname\<close>, \<open>path.join\<close>, \<open>fs.existsSync\<close>,
  \<open>fs.readFileSync\<close> (\<open>None\<close> when it throws) and \<open>JSON.parse\<close> (\<open>None\<close> when it
  throws a SyntaxError). They are parameters of the model, so that every theorem holds
  for each file system and each behaviour of these functions.
\<close>

record node =
  dirname :: string
  path_join :: "string list \<Rightarrow> string"
  existsSync :: "string \<Rightarrow> bool"
  readFileSync :: "string \<Rightarrow> string option"
  JSON_parse :: "string \<Rightarrow> json option"

text \<open>\<^verbatim>\<open>const STORAGE_PATH = path.join(__dirname, '../cdn-server/storage');\<close>\<close>

definition STORAGE_PATH :: "node \<Rightarrow> string" where
  "STORAGE_PATH env = path_join env [dirname env, ''../cdn-server/storage'']"

subsection \<open>The JavaScript the handler runs on the parsed metadata\<close>

text \<open>
  \<open>metadata.fileUrl\<close>: reading a property of \<open>null\<close> throws a TypeError; an object
  gives its own property, or \<open>undefined\<close> (here \<open>None\<close>); a boolean, a number, a string
  and an array have no property of that name, neither has any prototype.
\<close>

fun get_fileUrl :: "json \<Rightarrow> js_error + json option" where
  "get_fileUrl JNull = Inl TypeError"
| "get_fileUrl (JObj ps) = Inr (map_of ps ''fileUrl'')"
| "get_fileUrl _ = Inr None"

text \<open>
  The conversion to a string that a template literal applies to \<open>${...}\<close>. An array is
  joined with commas, \<open>null\<close> elements giving the empty string. A plain object gives
  \<open>[object Object]\<close> through \<open>Object.prototype.toString\<close>, unless it has a property
  \<open>toString\<close> of its own: a value out of JSON text is never callable, \<open>valueOf\<close> then
  gives no primitive either, and the conversion throws a TypeError.
\<close>

fun collect :: "('e + 'a) list \<Rightarrow> 'e + 'a list" where
  "collect [] = Inr []"
| "collect (Inl e # rs) = Inl e"
| "collect (Inr x # rs) = (case collect rs of Inl e \<Rightarrow> Inl e | Inr xs \<Rightarrow> Inr (x # xs))"

fun join :: "string \<Rightarrow> string list \<Rightarrow> string" where
  "join sep [] = []"
| "join sep [s] = s"
| "join sep (s # t # ss) = s @ sep @ join sep (t # ss)"

fun ToString :: "json \<Rightarrow> js_error + string" where
  "ToString JNull = Inr ''null''"
| "ToString (JBool b) = Inr (if b then ''true'' else ''false'')"
| "ToString (JNum n) = Inr (if n = ''-0'' then ''0'' else n)"
| "ToString (JStr s) = Inr s"
| "ToString (JArr xs) =
     (case collect (map (\<lambda>x. if x = JNull then Inr [] else ToString x) xs) of
        Inl e \<Rightarrow> Inl e
      | Inr ss \<Rightarrow> Inr (join '','' ss))"
| "ToString (JObj ps) =
     (if ''toString'' \<in> fst ` set ps then Inl TypeError else Inr ''[object Object]'')"

definition template :: "json option \<Rightarrow> js_error + string" where
  "template v = (case v of None \<Rightarrow> Inr ''undefined'' | Some x \<Rightarrow> ToString x)"

text \<open>
  The spread \<open>...metadata\<close> copies the own enumerable properties of the value: those of
  an object; the elements of an array and the characters of a string under their indices;
  none for a boolean or a number. (The characters of a string are its \<open>char\<close>s, which
  are JavaScript's for ASCII text.)
\<close>

fun decimal :: "nat \<Rightarrow> string" where
  "decimal n =
     (if n < 10 then [char_of (48 + n)] else decimal (n div 10) @ [char_of (48 + n mod 10)])"

fun spread :: "json \<Rightarrow> (string \<times> json) list" where
  "spread (JObj ps) = ps"
| "spread (JArr xs) = zip (map decimal [0..<length xs]) xs"
| "spread (JStr s) = zip (map decimal [0..<length s]) (map (\<lambda>c. JStr [c]) s)"
| "spread _ = []"

text \<open>
  A property written after the spread in an object literal replaces the value of a
  property of that name where it stands, and is added at the end when there is none.
\<close>

fun set_property :: "(string \<times> json) list \<Rightarrow> string \<Rightarrow> json \<Rightarrow> (string \<times> json) list" where
  "set_property [] k v = [(k, v)]"
| "set_property ((k', v') # ps) k v =
     (if k' = k then (k, v) # ps else (k', v') # set_property ps k v)"

text \<open>
  \<^verbatim>\<open>
  const signedUrl = `${metadata.fileUrl}?token=secure-signature`;
  res.json({ ...metadata, fileUrl: signedUrl });
  \<close>
\<close>

definition signedUrl :: "json \<Rightarrow> js_error + string" where
  "signedUrl metadata =
     (case get_fileUrl metadata of
        Inl e \<Rightarrow> Inl e
      | Inr v \<Rightarrow>
          (case template v of
             Inl e \<Rightarrow> Inl e
           | Inr s \<Rightarrow> Inr (s @ ''?token=secure-signature'')))"

definition signed_metadata :: "json \<Rightarrow> string \<Rightarrow> json" where
  "signed_metadata metadata url = JObj (set_property (spread metadata) ''fileUrl'' (JStr url))"

text \<open>
  \<open>res.json(value)\<close> sends the text \<open>JSON.stringify(value)\<close>. That text writes a
  number that is not finite as \<open>null\<close> and negative zero as \<open>0\<close>, at every depth, and
  every other value of JSON text as it is. \<open>JSON_stringify\<close> gives the value that the
  sent text denotes, which is the body the client reads.
\<close>

fun JSON_stringify :: "json \<Rightarrow> json" where
  "JSON_stringify (JNum n) =
     (if n = ''Infinity'' \<or> n = ''-Infinity'' \<or> n = ''NaN'' then JNull
      else if n = ''-0'' then JNum ''0''
      else JNum n)"
| "JSON_stringify (JArr xs) = JArr (map JSON_stringify xs)"
| "JSON_stringify (JObj ps) = JObj (map (\<lambda>p. (fst p, JSON_stringify (snd p))) ps)"
| "JSON_stringify v = v"

definition res_json :: "nat \<Rightarrow> json \<Rightarrow> response" where
  "res_json code v = \<lparr>status = code, body = Json (JSON_stringify v)\<rparr>"


subsection \<open>The handler\<close>

text \<open>
  \<^verbatim>\<open>
  app.get('/check', (req, res) => {
      console.log("App requested update check...");
      if (req.headers.authorization !== 'Bearer my-secret-user') {
          return res.status(401).json({ error: "Unauthorized" });
      }
      const platform = req.headers['x-app-platform'] || 'android';
      const metadataPath = path.join(STORAGE_PATH, platform, 'metadata.json');
      if (!fs.existsSync(metadataPath)) {
          console.log(`Metadata not found at ${metadataPath}`);
          return res.json({ update: false });
      }
      try {
          const metadata = JSON.parse(fs.readFileSync(metadataPath, 'utf8'));
          const signedUrl = `${metadata.fileUrl}?token=secure-signature`;
          console.log("Signed URL generated");
          res.json({ ...metadata, fileUrl: signedUrl });
      } catch (err) {
          console.error("Error reading metadata:", err);
          res.status(500).json({ error: "Internal Server Error" });
      }
  });
  \<close>
  \<open>res.json\<close> without \<open>res.status\<close> answers with status 200. The handler returns the
  response together with its events in the order they happen.
\<close>

definition platform_of :: "request \<Rightarrow> string" where
  "platform_of req =
     (case map_of (headers req) ''x-app-platform'' of
        None \<Rightarrow> ''android''
      | Some p \<Rightarrow> if p = [] then ''android'' else p)"

definition read_metadata :: "node \<Rightarrow> string \<Rightarrow> js_error + json" where
  "read_metadata env metadataPath =
     (case readFileSync env metadataPath of
        None \<Rightarrow> Inl ReadError
      | Some contents \<Rightarrow>
          (case JSON_parse env contents of
             None \<Rightarrow> Inl SyntaxError
           | Some metadata \<Rightarrow> Inr metadata))"

definition check :: "node \<Rightarrow> request \<Rightarrow> response \<times> event list" where
  "check env req =
     (if map_of (headers req) ''authorization'' \<noteq> Some ''Bearer my-secret-user''
      then (res_json 401 (JObj [(''error'', JStr ''Unauthorized'')]), [LogCheckRequested])
      else
        let platform = platform_of req;
            metadataPath = path_join env [STORAGE_PATH env, platform, ''metadata.json'']
        in
        if \<not> existsSync env metadataPath
        then (res_json 200 (JObj [(''update'', JBool False)]),
              [LogCheckRequested, ExistsSync metadataPath, LogMetadataNotFound metadataPath])
        else
          (case read_metadata env metadataPath of
             Inl err \<Rightarrow>
               (res_json 500 (JObj [(''error'', JStr ''Internal Server Error'')]),
                [LogCheckRequested, ExistsSync metadataPath, ReadFileSync metadataPath,
                 LogErrorReadingMetadata err])
           | Inr metadata \<Rightarrow>
               (case signedUrl metadata of
                  Inl err \<Rightarrow>
                    (res_json 500 (JObj [(''error'', JStr ''Internal Server Error'')]),
                     [LogCheckRequested, ExistsSync metadataPath, ReadFileSync metadataPath,
                      LogErrorReadingMetadata err])
                | Inr url \<Rightarrow>
                    (res_json 200 (signed_metadata metadata url),
                     [LogCheckRequested, ExistsSync metadataPath, ReadFileSync metadataPath,
                      LogSignedUrlGenerated]))))"

section \<open>From a signed URL to the request the guard sees\<close>

text \<open>
  A client that downloads from a URL sends the path and the query, never the fragment
  (RFC 3986, section 3.5): the fragment starts at the first \<open>#\<close>, and the query is what
  stands between the first \<open>?\<close> before it and the fragment. Express parses the query
  into \<open>req.query\<close>.
\<close>

definition url_query :: "string \<Rightarrow> string" where
  "url_query url =
     drop 1 (dropWhile (\<lambda>c. c \<noteq> CHR ''?'') (takeWhile (\<lambda>c. c \<noteq> CHR ''#'') url))"

fun split_on :: "char \<Rightarrow> string \<Rightarrow> string list" where
  "split_on c [] = [[]]"
| "split_on c (x # xs) =
     (if x = c then [] # split_on c xs
      else (case split_on c xs of [] \<Rightarrow> [[x]] | w # ws \<Rightarrow> (x # w) # ws))"

definition key_value :: "string \<Rightarrow> string \<times> string" where
  "key_value part =
     (takeWhile (\<lambda>c. c \<noteq> CHR ''='') part, drop 1 (dropWhile (\<lambda>c. c \<noteq> CHR ''='') part))"

text \<open>
  The query parser of Express on the queries that need none of its special cases: the
  pairs \<open>key=value\<close> between \<open>&\<close>, each key once and not empty, at most 1000 pairs, no
  escape (\<open>%\<close>, \<open>+\<close>) and no bracket in the text. On such a query every value is a string.
  Any other query is outside this model (\<open>None\<close>).
\<close>

definition parse_query :: "string \<Rightarrow> (string \<times> qval) list option" where
  "parse_query q =
     (let parts = filter (\<lambda>p. p \<noteq> []) (split_on CHR ''&'' q);
          pairs = map key_value parts
      in if (\<exists>c \<in> set q. c \<in> {CHR ''%'', CHR ''+'', CHR ''['', CHR '']''})
            \<or> 1000 < length parts
            \<or> \<not> distinct (map fst pairs)
            \<or> [] \<in> set (map fst pairs)
         then None
         else Some (map (\<lambda>(k, v). (k, QString v)) pairs))"

text \<open>The request a download from \<open>url\<close> makes for the path \<open>p\<close> under \<open>/files\<close>.\<close>

definition download_request :: "string \<Rightarrow> string \<Rightarrow> (string \<times> string) list \<Rightarrow> request option" where
  "download_request url p hs =
     (case parse_query (url_query url) of
        None \<Rightarrow> None
      | Some q \<Rightarrow> Some \<lparr>headers = hs, path = p, query = q\<rparr>)"

section \<open>A deployment to run the handlers on\<close>

text \<open>
  The metadata that deploy.js writes for version 2.0.0, a file system that holds it for
  the platform \<open>android\<close> only, and requests of the client App.tsx.
\<close>

definition deployed_properties :: "(string \<times> json) list" where
  "deployed_properties =
     [(''id'', JStr ''v200''),
      (''version'', JStr ''2.0.0''),
      (''fileUrl'', JStr ''http://10.0.2.2:4000/files/android/update.zip''),
      (''fileHash'', JStr ''9f86d081884c7d65''),
      (''status'', JStr ''UPDATE''),
      (''force'', JBool False)]"

definition deployed :: json where
  "deployed = JObj deployed_properties"

text \<open>The same answer of the handler, with the token appended to the file URL.\<close>

definition deployed_signed_properties :: "(string \<times> json) list" where
  "deployed_signed_properties =
     [(''id'', JStr ''v200''),
      (''version'', JStr ''2.0.0''),
      (''fileUrl'', JStr ''http://10.0.2.2:4000/files/android/update.zip?token=secure-signature''),
      (''fileHash'', JStr ''9f86d081884c7d65''),
      (''status'', JStr ''UPDATE''),
      (''force'', JBool False)]"

text \<open>A record whose file URL ends in a fragment.\<close>

definition deployed_with_fragment :: json where
  "deployed_with_fragment = JObj
     [(''version'', JStr ''2.0.0''),
      (''fileUrl'', JStr ''http://10.0.2.2:4000/files/android/update.zip#v200'')]"


definition android_metadata :: string where
  "android_metadata = ''/srv/local-system/cdn-server/storage/android/metadata.json''"

definition local_system :: "json \<Rightarrow> node" where
  "local_system metadata =
     \<lparr>dirname = ''/srv/local-system/api-server'',
      path_join = (\<lambda>parts.
         if parts = [''/srv/local-system/api-server'', ''../cdn-server/storage'']
         then ''/srv/local-system/cdn-server/storage''
         else join ''/'' parts),
      existsSync = (\<lambda>p. p = android_metadata),
      readFileSync = (\<lambda>p. if p = android_metadata then Some ''(text of metadata.json)'' else None),
      JSON_parse = (\<lambda>s. if s = ''(text of metadata.json)'' then Some metadata else None)\<rparr>"

definition app_request :: "(string \<times> string) list \<Rightarrow> request" where
  "app_request extra =
     \<lparr>headers = (''authorization'', ''Bearer my-secret-user'') # extra,
      path = ''/check'', query = []\<rparr>"

definition file_request :: "string \<Rightarrow> (string \<times> qval) list \<Rightarrow> request" where
  "file_request p q = \<lparr>headers = [], path = p, query = q\<rparr>"

section \<open>Properties of the guard\<close>

lemma secureGuard_decision:
  "fst (secureGuard req) =
     (if map_of (query req) ''token'' = Some (QString ''secure-signature'') then Next
      else Responded forbidden)"
  by (simp add: secureGuard_def forbidden_def Let_def)

text \<open>
  C2. The guard answers 403 exactly when \<open>req.query.token\<close> is not the string
  \<open>'secure-signature'\<close>, and otherwise calls \<open>next\<close>. Two requests on which that one
  comparison comes out the same get the same decision, whatever their paths, their
  headers (the caller's identity) and the time at which they are handled.
\<close>

theorem secureGuard_token_only:
  "(fst (secureGuard req) = Responded forbidden)
     = (map_of (query req) ''token'' \<noteq> Some (QString ''secure-signature''))
   \<and> (fst (secureGuard req) = Next)
     = (map_of (query req) ''token'' = Some (QString ''secure-signature''))
   \<and> ((map_of (query r1) ''token'' = Some (QString ''secure-signature''))
        = (map_of (query r2) ''token'' = Some (QString ''secure-signature''))
      \<longrightarrow> fst (files_route t1 r1) = fst (files_route t2 r2))"
  by (simp add: secureGuard_decision files_route_def)

theorem secureGuard_token_only_witness:
  "(map_of (query (file_request ''/android/update.zip'' [])) ''token''
      = Some (QString ''secure-signature''))
   = (map_of (query \<lparr>headers = [(''authorization'', ''Bearer my-secret-user'')],
                     path = ''/ios/update.zip'',
                     query = [(''token'', QArray [QString ''secure-signature''])]\<rparr>) ''token''
      = Some (QString ''secure-signature''))
   \<and> fst (files_route 0 (file_request ''/android/update.zip'' []))
     = fst (files_route 1700000000000
              \<lparr>headers = [(''authorization'', ''Bearer my-secret-user'')],
               path = ''/ios/update.zip'',
               query = [(''token'', QArray [QString ''secure-signature''])]\<rparr>)"
  using secureGuard_token_only
    [of "file_request ''/android/update.zip'' []"
        "file_request ''/android/update.zip'' []"
        "\<lparr>headers = [(''authorization'', ''Bearer my-secret-user'')],
          path = ''/ios/update.zip'',
          query = [(''token'', QArray [QString ''secure-signature''])]\<rparr>"
        0 1700000000000]
  by (simp add: file_request_def)

text \<open>
  C1, as the code has it. The guard's decision does not depend on the requested path: a
  request that the guard lets through for one path is let through for every other path
  with the same query. The token is not bound to a resource.
\<close>

theorem token_accepted_on_every_path:
  "fst (secureGuard req) = Next \<Longrightarrow> fst (secureGuard (req\<lparr>path := B\<rparr>)) = Next"
  by (simp add: secureGuard_decision split: if_splits)

theorem token_accepted_on_every_path_witness:
  "fst (secureGuard (file_request ''/android/update.zip''
          [(''token'', QString ''secure-signature'')])) = Next
   \<and> fst (secureGuard ((file_request ''/android/update.zip''
          [(''token'', QString ''secure-signature'')])\<lparr>path := ''/ios/update.zip''\<rparr>)) = Next"
proof -
  have ok: "fst (secureGuard (file_request ''/android/update.zip''
          [(''token'', QString ''secure-signature'')])) = Next"
    by (simp add: secureGuard_decision file_request_def)
  from token_accepted_on_every_path [OF ok, of "''/ios/update.zip''"] ok
  show ?thesis by simp
qed

text \<open>
  C1, as stated, fails: the token that is accepted for \<open>/android/update.zip\<close> is
  accepted, not answered with 403, when it is presented for \<open>/ios/update.zip\<close>.
\<close>

theorem replay_counterexample:
  "''/ios/update.zip'' \<noteq> ''/android/update.zip''
   \<and> fst (secureGuard (file_request ''/android/update.zip''
            [(''token'', QString ''secure-signature'')])) = Next
   \<and> fst (secureGuard (file_request ''/ios/update.zip''
            [(''token'', QString ''secure-signature'')])) \<noteq> Responded forbidden"
  by (simp add: secureGuard_decision file_request_def)

text \<open>
  C4, as the code has it. The decision of the route is the same at every time, and a
  request whose token is \<open>'secure-signature'\<close> is let through at every time. The token
  carries no expiry timestamp and the guard reads no clock.
\<close>

theorem token_never_expires:
  "map_of (query req) ''token'' = Some (QString ''secure-signature'')
   \<Longrightarrow> fst (files_route now req) = Next \<and> files_route later req = files_route now req"
  by (simp add: files_route_def secureGuard_decision)

theorem token_never_expires_witness:
  "map_of (query (file_request ''/android/update.zip''
       [(''token'', QString ''secure-signature'')])) ''token''
     = Some (QString ''secure-signature'')
   \<and> fst (files_route 1700000000000 (file_request ''/android/update.zip''
         [(''token'', QString ''secure-signature'')])) = Next
   \<and> files_route 4102444800000 (file_request ''/android/update.zip''
         [(''token'', QString ''secure-signature'')])
     = files_route 1700000000000 (file_request ''/android/update.zip''
         [(''token'', QString ''secure-signature'')])"
proof -
  have t: "map_of (query (file_request ''/android/update.zip''
       [(''token'', QString ''secure-signature'')])) ''token''
     = Some (QString ''secure-signature'')"
    by (simp add: file_request_def)
  from token_never_expires [OF t, of 1700000000000 4102444800000] t
  show ?thesis by simp
qed

text \<open>
  C4, as stated, fails whatever expiry timestamps the tokens are taken to have: no
  assignment of an expiry timestamp to each token makes the route deny every request
  whose token has expired. The request for \<open>/android/update.zip\<close> with the token
  \<open>'secure-signature'\<close>, handled one millisecond after the expiry given to that token,
  is let through.
\<close>

theorem expired_grant_counterexample:
  "\<not> (\<exists>expiresAt :: qval option \<Rightarrow> nat. \<forall>now req.
         expiresAt (map_of (query req) ''token'') < now
         \<longrightarrow> fst (files_route now req) = Responded forbidden)"
proof
  assume "\<exists>expiresAt :: qval option \<Rightarrow> nat. \<forall>now req.
            expiresAt (map_of (query req) ''token'') < now
            \<longrightarrow> fst (files_route now req) = Responded forbidden"
  then obtain expiresAt :: "qval option \<Rightarrow> nat" where denied:
    "\<And>now req. expiresAt (map_of (query req) ''token'') < now
       \<Longrightarrow> fst (files_route now req) = Responded forbidden"
    by blast
  let ?req = "file_request ''/android/update.zip'' [(''token'', QString ''secure-signature'')]"
  let ?now = "Suc (expiresAt (map_of (query ?req) ''token''))"
  have "fst (files_route ?now ?req) = Responded forbidden"
    by (rule denied) simp
  moreover have "fst (files_route ?now ?req) = Next"
    by (simp add: files_route_def secureGuard_decision file_request_def)
  ultimately show False by simp
qed

text \<open>
  C9. Any two requests that the guard denies get the same response: status 403 and the
  body \<open>Forbidden: Invalid Signature\<close>, whether the token is missing, is another string
  or is not a string at all. The path appears in the server's log only.
\<close>

theorem denials_indistinguishable:
  "fst (secureGuard r1) = Responded a \<Longrightarrow> fst (secureGuard r2) = Responded b
   \<Longrightarrow> a = b \<and> status a = 403 \<and> body a = Text ''Forbidden: Invalid Signature''"
  by (auto simp add: secureGuard_decision forbidden_def split: if_splits)

theorem denials_indistinguishable_witness:
  "fst (secureGuard (file_request ''/android/update.zip'' [])) = Responded forbidden
   \<and> fst (secureGuard (file_request ''/ios/update.zip'' [(''token'', QString ''guess'')]))
       = Responded forbidden
   \<and> forbidden = forbidden \<and> status forbidden = 403
   \<and> body forbidden = Text ''Forbidden: Invalid Signature''"
proof -
  have d1: "fst (secureGuard (file_request ''/android/update.zip'' [])) = Responded forbidden"
    by (simp add: secureGuard_decision file_request_def)
  have d2: "fst (secureGuard (file_request ''/ios/update.zip'' [(''token'', QString ''guess'')]))
       = Responded forbidden"
    by (simp add: secureGuard_decision file_request_def)
  from denials_indistinguishable [OF d1 d2] d1 d2 show ?thesis by simp
qed

section \<open>Properties of the update check\<close>

lemma map_of_set_property: "map_of (set_property ps k v) = (map_of ps)(k \<mapsto> v)"
  by (induction ps) auto





lemma map_of_stringify:
  "map_of (map (\<lambda>p. (fst p, JSON_stringify (snd p))) ps) k
     = map_option JSON_stringify (map_of ps k)"
  by (induction ps) auto


lemma check_unauthorized:
  "map_of (headers req) ''authorization'' \<noteq> Some ''Bearer my-secret-user''
   \<Longrightarrow> check env req =
       (\<lparr>status = 401, body = Json (JObj [(''error'', JStr ''Unauthorized'')])\<rparr>,
        [LogCheckRequested])"
  by (simp add: check_def res_json_def)

lemma check_no_metadata_run:
  "map_of (headers req) ''authorization'' = Some ''Bearer my-secret-user''
   \<Longrightarrow> \<not> existsSync env (path_join env [STORAGE_PATH env, platform_of req, ''metadata.json''])
   \<Longrightarrow> check env req =
       (\<lparr>status = 200, body = Json (JObj [(''update'', JBool False)])\<rparr>,
        [LogCheckRequested,
         ExistsSync (path_join env [STORAGE_PATH env, platform_of req, ''metadata.json'']),
         LogMetadataNotFound
           (path_join env [STORAGE_PATH env, platform_of req, ''metadata.json''])])"
  by (simp add: check_def Let_def res_json_def)

lemma check_no_metadata:
  "map_of (headers req) ''authorization'' = Some ''Bearer my-secret-user''
   \<Longrightarrow> \<not> existsSync env (path_join env [STORAGE_PATH env, platform_of req, ''metadata.json''])
   \<Longrightarrow> fst (check env req) = \<lparr>status = 200, body = Json (JObj [(''update'', JBool False)])\<rparr>"
  by (simp add: check_no_metadata_run)

lemma check_signed_run:
  "map_of (headers req) ''authorization'' = Some ''Bearer my-secret-user''
   \<Longrightarrow> existsSync env (path_join env [STORAGE_PATH env, platform_of req, ''metadata.json''])
   \<Longrightarrow> read_metadata env (path_join env [STORAGE_PATH env, platform_of req, ''metadata.json''])
         = Inr metadata
   \<Longrightarrow> signedUrl metadata = Inr url
   \<Longrightarrow> check env req =
       (\<lparr>status = 200, body = Json (JSON_stringify (signed_metadata metadata url))\<rparr>,
        [LogCheckRequested,
         ExistsSync (path_join env [STORAGE_PATH env, platform_of req, ''metadata.json'']),
         ReadFileSync (path_join env [STORAGE_PATH env, platform_of req, ''metadata.json'']),
         LogSignedUrlGenerated])"
  by (simp add: check_def Let_def res_json_def)

lemma check_signed:
  "map_of (headers req) ''authorization'' = Some ''Bearer my-secret-user''
   \<Longrightarrow> existsSync env (path_join env [STORAGE_PATH env, platform_of req, ''metadata.json''])
   \<Longrightarrow> read_metadata env (path_join env [STORAGE_PATH env, platform_of req, ''metadata.json''])
         = Inr metadata
   \<Longrightarrow> signedUrl metadata = Inr url
   \<Longrightarrow> fst (check env req)
       = \<lparr>status = 200, body = Json (JSON_stringify (signed_metadata metadata url))\<rparr>"
  by (simp add: check_signed_run)

lemma check_failed_run:
  "map_of (headers req) ''authorization'' = Some ''Bearer my-secret-user''
   \<Longrightarrow> existsSync env (path_join env [STORAGE_PATH env, platform_of req, ''metadata.json''])
   \<Longrightarrow> read_metadata env (path_join env [STORAGE_PATH env, platform_of req, ''metadata.json''])
         = Inl err
       \<or> (\<exists>metadata.
            read_metadata env (path_join env [STORAGE_PATH env, platform_of req, ''metadata.json''])
              = Inr metadata \<and> signedUrl metadata = Inl err)
   \<Longrightarrow> check env req =
       (\<lparr>status = 500, body = Json (JObj [(''error'', JStr ''Internal Server Error'')])\<rparr>,
        [LogCheckRequested,
         ExistsSync (path_join env [STORAGE_PATH env, platform_of req, ''metadata.json'']),
         ReadFileSync (path_join env [STORAGE_PATH env, platform_of req, ''metadata.json'']),
         LogErrorReadingMetadata err])"
  by (auto simp add: check_def Let_def res_json_def)



lemma local_system_android:
  "path_join (local_system m) [STORAGE_PATH (local_system m), ''android'', ''metadata.json'']
     = android_metadata"
  by (simp add: local_system_def STORAGE_PATH_def android_metadata_def)

lemma local_system_ios:
  "path_join (local_system m) [STORAGE_PATH (local_system m), ''ios'', ''metadata.json'']
     = ''/srv/local-system/cdn-server/storage/ios/metadata.json''"
  by (simp add: local_system_def STORAGE_PATH_def)

lemma local_system_read:
  "read_metadata (local_system m) android_metadata = Inr m"
  by (simp add: read_metadata_def local_system_def)

lemma local_system_exists:
  "existsSync (local_system m) p = (p = android_metadata)"
  by (simp add: local_system_def)


lemma deployed_run:
  assumes "map_of extra ''x-app-platform'' = None \<or> map_of extra ''x-app-platform'' = Some ''android''"
  shows "check (local_system deployed) (app_request extra) =
     (\<lparr>status = 200, body = Json (JObj deployed_signed_properties)\<rparr>,
      [LogCheckRequested, ExistsSync android_metadata, ReadFileSync android_metadata,
       LogSignedUrlGenerated])"
proof -
  have p: "platform_of (app_request extra) = ''android''"
    using assms by (auto simp add: platform_of_def app_request_def)
  have a: "map_of (headers (app_request extra)) ''authorization'' = Some ''Bearer my-secret-user''"
    by (simp add: app_request_def)
  have u: "signedUrl deployed
     = Inr ''http://10.0.2.2:4000/files/android/update.zip?token=secure-signature''"
    by (simp add: signedUrl_def deployed_def deployed_properties_def template_def)
  have "check (local_system deployed) (app_request extra) =
     (\<lparr>status = 200, body = Json (JSON_stringify (signed_metadata deployed
        ''http://10.0.2.2:4000/files/android/update.zip?token=secure-signature''))\<rparr>,
      [LogCheckRequested,
       ExistsSync (path_join (local_system deployed)
         [STORAGE_PATH (local_system deployed), platform_of (app_request extra),
          ''metadata.json'']),
       ReadFileSync (path_join (local_system deployed)
         [STORAGE_PATH (local_system deployed), platform_of (app_request extra),
          ''metadata.json'']),
       LogSignedUrlGenerated])"
    by (rule check_signed_run [OF a _ _ u])
       (simp_all add: p local_system_android local_system_exists local_system_read)
  then show ?thesis
    by (simp add: p local_system_android signed_metadata_def deployed_def
        deployed_properties_def deployed_signed_properties_def)
qed

lemma deployed_signed:
  assumes "map_of extra ''x-app-platform'' = None \<or> map_of extra ''x-app-platform'' = Some ''android''"
  shows "fst (check (local_system deployed) (app_request extra)) =
     \<lparr>status = 200, body = Json (JObj deployed_signed_properties)\<rparr>"
  by (simp add: deployed_run [OF assms])

lemma url_query_signed:
  assumes "CHR ''?'' \<notin> set u" and "CHR ''#'' \<notin> set u"
  shows "url_query (u @ ''?token=secure-signature'') = ''token=secure-signature''"
proof -
  have "takeWhile (\<lambda>c. c \<noteq> CHR ''#'') (u @ ''?token=secure-signature'')
          = u @ ''?token=secure-signature''"
    using assms(2) by (auto simp add: takeWhile_eq_all_conv)
  moreover have "dropWhile (\<lambda>c. c \<noteq> CHR ''?'') (u @ ''?token=secure-signature'')
          = ''?token=secure-signature''"
    using assms(1) by (subst dropWhile_append2) auto
  ultimately show ?thesis by (simp add: url_query_def)
qed

lemma parse_query_token:
  "parse_query ''token=secure-signature'' = Some [(''token'', QString ''secure-signature'')]"
  by (simp add: parse_query_def key_value_def)

lemma download_signed:
  assumes "CHR ''?'' \<notin> set u" and "CHR ''#'' \<notin> set u"
  shows "download_request (u @ ''?token=secure-signature'') p hs
           = Some \<lparr>headers = hs, path = p, query = [(''token'', QString ''secure-signature'')]\<rparr>"
  by (simp add: download_request_def url_query_signed [OF assms] parse_query_token)

text \<open>
  C7. A request whose Authorization header is missing or is not
  \<open>Bearer my-secret-user\<close> is answered with 401 after the first log line and nothing else:
  the handler makes no call to the file system, signs nothing, and its answer is the
  same on every file system.
\<close>

theorem unauthorized_before_metadata:
  "map_of (headers req) ''authorization'' \<noteq> Some ''Bearer my-secret-user''
   \<Longrightarrow> check env req =
         (\<lparr>status = 401, body = Json (JObj [(''error'', JStr ''Unauthorized'')])\<rparr>,
          [LogCheckRequested])
       \<and> check env req = check env' req
       \<and> ExistsSync p \<notin> set (snd (check env req))
       \<and> ReadFileSync p \<notin> set (snd (check env req))
       \<and> LogSignedUrlGenerated \<notin> set (snd (check env req))"
  by (simp add: check_unauthorized)

theorem unauthorized_before_metadata_witness:
  "map_of (headers \<lparr>headers = [(''x-app-platform'', ''android'')], path = ''/check'', query = []\<rparr>)
      ''authorization'' \<noteq> Some ''Bearer my-secret-user''
   \<and> check (local_system deployed)
        \<lparr>headers = [(''x-app-platform'', ''android'')], path = ''/check'', query = []\<rparr>
     = (\<lparr>status = 401, body = Json (JObj [(''error'', JStr ''Unauthorized'')])\<rparr>,
        [LogCheckRequested])"
proof -
  have h: "map_of (headers \<lparr>headers = [(''x-app-platform'', ''android'')], path = ''/check'',
      query = []\<rparr>) ''authorization'' \<noteq> Some ''Bearer my-secret-user''"
    by simp
  from unauthorized_before_metadata [OF h] h show ?thesis by simp
qed

text \<open>
  C6. With the valid credential and no metadata file for the platform, the answer is
  status 200 with the body \<open>{update: false}\<close>.
\<close>

theorem no_metadata_is_no_update:
  "map_of (headers req) ''authorization'' = Some ''Bearer my-secret-user''
   \<Longrightarrow> \<not> existsSync env (path_join env [STORAGE_PATH env, platform_of req, ''metadata.json''])
   \<Longrightarrow> fst (check env req) = \<lparr>status = 200, body = Json (JObj [(''update'', JBool False)])\<rparr>"
  by (rule check_no_metadata)

theorem no_metadata_is_no_update_witness:
  "map_of (headers (app_request [(''x-app-platform'', ''ios'')])) ''authorization''
     = Some ''Bearer my-secret-user''
   \<and> \<not> existsSync (local_system deployed)
         (path_join (local_system deployed)
            [STORAGE_PATH (local_system deployed),
             platform_of (app_request [(''x-app-platform'', ''ios'')]), ''metadata.json''])
   \<and> fst (check (local_system deployed) (app_request [(''x-app-platform'', ''ios'')]))
     = \<lparr>status = 200, body = Json (JObj [(''update'', JBool False)])\<rparr>"
proof -
  have p: "platform_of (app_request [(''x-app-platform'', ''ios'')]) = ''ios''"
    by (simp add: platform_of_def app_request_def)
  have a: "map_of (headers (app_request [(''x-app-platform'', ''ios'')])) ''authorization''
     = Some ''Bearer my-secret-user''"
    by (simp add: app_request_def)
  have e: "\<not> existsSync (local_system deployed)
         (path_join (local_system deployed)
            [STORAGE_PATH (local_system deployed),
             platform_of (app_request [(''x-app-platform'', ''ios'')]), ''metadata.json''])"
    by (simp add: p local_system_ios local_system_exists android_metadata_def)
  from no_metadata_is_no_update [OF a e] a e show ?thesis by simp
qed




text \<open>
  C10. A request without the header \<open>x-app-platform\<close>, or with an empty one, has the
  platform \<open>android\<close> and is handled as the same request with the header set to
  \<open>android\<close>. With the valid credential it is answered from the file
  \<open>metadata.json\<close> of the directory \<open>android\<close> of the storage: when that file exists,
  is read and parsed, and its URL is signed, the answer is status 200 with that record and
  its signed URL, after the handler has looked for and read that file and no other; when
  reading, parsing or signing throws, the answer is 500; only when that file does not
  exist is the answer \<open>{update: false}\<close>.
\<close>

theorem platform_defaults_to_android:
  assumes hdr: "map_of (headers req) ''x-app-platform'' = None
                  \<or> map_of (headers req) ''x-app-platform'' = Some []"
  shows "platform_of req = ''android''
     \<and> check env req = check env (req\<lparr>headers := (''x-app-platform'', ''android'') # headers req\<rparr>)
     \<and> (map_of (headers req) ''authorization'' = Some ''Bearer my-secret-user'' \<longrightarrow>
          (\<forall>metadata url.
              existsSync env (path_join env [STORAGE_PATH env, ''android'', ''metadata.json''])
              \<and> read_metadata env (path_join env [STORAGE_PATH env, ''android'', ''metadata.json''])
                  = Inr metadata
              \<and> signedUrl metadata = Inr url
              \<longrightarrow> check env req =
                    (\<lparr>status = 200,
                      body = Json (JSON_stringify (signed_metadata metadata url))\<rparr>,
                     [LogCheckRequested,
                      ExistsSync (path_join env [STORAGE_PATH env, ''android'', ''metadata.json'']),
                      ReadFileSync (path_join env [STORAGE_PATH env, ''android'', ''metadata.json'']),
                      LogSignedUrlGenerated]))
        \<and> (\<forall>err.
              existsSync env (path_join env [STORAGE_PATH env, ''android'', ''metadata.json''])
              \<and> (read_metadata env (path_join env [STORAGE_PATH env, ''android'', ''metadata.json''])
                    = Inl err
                 \<or> (\<exists>metadata.
                      read_metadata env
                        (path_join env [STORAGE_PATH env, ''android'', ''metadata.json''])
                        = Inr metadata \<and> signedUrl metadata = Inl err))
              \<longrightarrow> check env req =
                    (\<lparr>status = 500,
                      body = Json (JObj [(''error'', JStr ''Internal Server Error'')])\<rparr>,
                     [LogCheckRequested,
                      ExistsSync (path_join env [STORAGE_PATH env, ''android'', ''metadata.json'']),
                      ReadFileSync (path_join env [STORAGE_PATH env, ''android'', ''metadata.json'']),
                      LogErrorReadingMetadata err]))
        \<and> (\<not> existsSync env (path_join env [STORAGE_PATH env, ''android'', ''metadata.json''])
              \<longrightarrow> check env req =
                    (\<lparr>status = 200, body = Json (JObj [(''update'', JBool False)])\<rparr>,
                     [LogCheckRequested,
                      ExistsSync (path_join env [STORAGE_PATH env, ''android'', ''metadata.json'']),
                      LogMetadataNotFound
                        (path_join env [STORAGE_PATH env, ''android'', ''metadata.json''])])))"
proof -
  from hdr have p: "platform_of req = ''android''"
    by (auto simp add: platform_of_def)
  have same: "check env req
      = check env (req\<lparr>headers := (''x-app-platform'', ''android'') # headers req\<rparr>)"
    using hdr by (auto simp add: check_def platform_of_def)
  have signed: "check env req =
        (\<lparr>status = 200, body = Json (JSON_stringify (signed_metadata metadata url))\<rparr>,
         [LogCheckRequested,
          ExistsSync (path_join env [STORAGE_PATH env, ''android'', ''metadata.json'']),
          ReadFileSync (path_join env [STORAGE_PATH env, ''android'', ''metadata.json'']),
          LogSignedUrlGenerated])"
    if "map_of (headers req) ''authorization'' = Some ''Bearer my-secret-user''"
      and "existsSync env (path_join env [STORAGE_PATH env, ''android'', ''metadata.json''])"
      and "read_metadata env (path_join env [STORAGE_PATH env, ''android'', ''metadata.json''])
            = Inr metadata"
      and "signedUrl metadata = Inr url"
    for metadata url
    using check_signed_run [of req env metadata url] that by (simp add: p)
  have failed: "check env req =
        (\<lparr>status = 500, body = Json (JObj [(''error'', JStr ''Internal Server Error'')])\<rparr>,
         [LogCheckRequested,
          ExistsSync (path_join env [STORAGE_PATH env, ''android'', ''metadata.json'']),
          ReadFileSync (path_join env [STORAGE_PATH env, ''android'', ''metadata.json'']),
          LogErrorReadingMetadata err])"
    if "map_of (headers req) ''authorization'' = Some ''Bearer my-secret-user''"
      and "existsSync env (path_join env [STORAGE_PATH env, ''android'', ''metadata.json''])"
      and "read_metadata env (path_join env [STORAGE_PATH env, ''android'', ''metadata.json''])
              = Inl err
           \<or> (\<exists>metadata.
                read_metadata env (path_join env [STORAGE_PATH env, ''android'', ''metadata.json''])
                  = Inr metadata \<and> signedUrl metadata = Inl err)"
    for err
    using check_failed_run [of req env err] that by (simp add: p)
  have absent: "check env req =
        (\<lparr>status = 200, body = Json (JObj [(''update'', JBool False)])\<rparr>,
         [LogCheckRequested,
          ExistsSync (path_join env [STORAGE_PATH env, ''android'', ''metadata.json'']),
          LogMetadataNotFound (path_join env [STORAGE_PATH env, ''android'', ''metadata.json''])])"
    if "map_of (headers req) ''authorization'' = Some ''Bearer my-secret-user''"
      and "\<not> existsSync env (path_join env [STORAGE_PATH env, ''android'', ''metadata.json''])"
    using check_no_metadata_run [of req env] that by (simp add: p)
  from p same signed failed absent show ?thesis by blast
qed

theorem platform_defaults_to_android_witness:
  "(map_of (headers (app_request [])) ''x-app-platform'' = None
      \<or> map_of (headers (app_request [])) ''x-app-platform'' = Some [])
   \<and> map_of (headers (app_request [])) ''authorization'' = Some ''Bearer my-secret-user''
   \<and> existsSync (local_system deployed)
       (path_join (local_system deployed)
          [STORAGE_PATH (local_system deployed), ''android'', ''metadata.json''])
   \<and> read_metadata (local_system deployed)
       (path_join (local_system deployed)
          [STORAGE_PATH (local_system deployed), ''android'', ''metadata.json''])
       = Inr deployed
   \<and> signedUrl deployed
       = Inr ''http://10.0.2.2:4000/files/android/update.zip?token=secure-signature''
   \<and> platform_of (app_request []) = ''android''
   \<and> check (local_system deployed) (app_request [])
     = check (local_system deployed)
         ((app_request [])\<lparr>headers := (''x-app-platform'', ''android'') # headers (app_request [])\<rparr>)
   \<and> check (local_system deployed) (app_request [])
     = (\<lparr>status = 200, body = Json (JObj deployed_signed_properties)\<rparr>,
        [LogCheckRequested, ExistsSync android_metadata, ReadFileSync android_metadata,
         LogSignedUrlGenerated])"
proof -
  have h: "map_of (headers (app_request [])) ''x-app-platform'' = None
      \<or> map_of (headers (app_request [])) ''x-app-platform'' = Some []"
    by (simp add: app_request_def)
  have a: "map_of (headers (app_request [])) ''authorization'' = Some ''Bearer my-secret-user''"
    by (simp add: app_request_def)
  have ex: "existsSync (local_system deployed)
       (path_join (local_system deployed)
          [STORAGE_PATH (local_system deployed), ''android'', ''metadata.json''])"
    by (simp add: local_system_android local_system_exists)
  have rd: "read_metadata (local_system deployed)
       (path_join (local_system deployed)
          [STORAGE_PATH (local_system deployed), ''android'', ''metadata.json''])
       = Inr deployed"
    by (simp add: local_system_android local_system_read)
  have u: "signedUrl deployed
     = Inr ''http://10.0.2.2:4000/files/android/update.zip?token=secure-signature''"
    by (simp add: signedUrl_def deployed_def deployed_properties_def template_def)
  have v: "JSON_stringify (signed_metadata deployed
        ''http://10.0.2.2:4000/files/android/update.zip?token=secure-signature'')
      = JObj deployed_signed_properties"
    by (simp add: signed_metadata_def deployed_def deployed_properties_def
        deployed_signed_properties_def)
  from platform_defaults_to_android [OF h, of "local_system deployed"] a ex rd u
  have "platform_of (app_request []) = ''android''"
    and "check (local_system deployed) (app_request [])
     = check (local_system deployed)
         ((app_request [])\<lparr>headers := (''x-app-platform'', ''android'') # headers (app_request [])\<rparr>)"
    and "check (local_system deployed) (app_request [])
     = (\<lparr>status = 200, body = Json (JSON_stringify (signed_metadata deployed
          ''http://10.0.2.2:4000/files/android/update.zip?token=secure-signature''))\<rparr>,
        [LogCheckRequested,
         ExistsSync (path_join (local_system deployed)
           [STORAGE_PATH (local_system deployed), ''android'', ''metadata.json'']),
         ReadFileSync (path_join (local_system deployed)
           [STORAGE_PATH (local_system deployed), ''android'', ''metadata.json'']),
         LogSignedUrlGenerated])"
    by blast+
  with h a ex rd u show ?thesis
    by (simp add: v local_system_android)
qed

text \<open>
  C5, as the code has it. The handler reads the headers \<open>authorization\<close> and
  \<open>x-app-platform\<close> and nothing else of the request: two requests that agree on these
  two get the same response, whatever installed version either of them supplies.
\<close>

theorem response_ignores_installed_version:
  "map_of (headers r1) ''authorization'' = map_of (headers r2) ''authorization''
   \<Longrightarrow> map_of (headers r1) ''x-app-platform'' = map_of (headers r2) ''x-app-platform''
   \<Longrightarrow> check env r1 = check env r2"
  by (simp add: check_def platform_of_def)

theorem response_ignores_installed_version_witness:
  "map_of (headers (app_request [(''x-app-version'', ''2.0.0'')])) ''authorization''
     = map_of (headers (app_request [(''x-app-version'', ''1.0.0'')])) ''authorization''
   \<and> map_of (headers (app_request [(''x-app-version'', ''2.0.0'')])) ''x-app-platform''
     = map_of (headers (app_request [(''x-app-version'', ''1.0.0'')])) ''x-app-platform''
   \<and> check (local_system deployed) (app_request [(''x-app-version'', ''2.0.0'')])
     = check (local_system deployed) (app_request [(''x-app-version'', ''1.0.0'')])"
proof -
  have a: "map_of (headers (app_request [(''x-app-version'', ''2.0.0'')])) ''authorization''
     = map_of (headers (app_request [(''x-app-version'', ''1.0.0'')])) ''authorization''"
    by (simp add: app_request_def)
  have b: "map_of (headers (app_request [(''x-app-version'', ''2.0.0'')])) ''x-app-platform''
     = map_of (headers (app_request [(''x-app-version'', ''1.0.0'')])) ''x-app-platform''"
    by (simp add: app_request_def)
  from response_ignores_installed_version [OF a b, of "local_system deployed"] a b
  show ?thesis by simp
qed

text \<open>
  C5, as stated, fails: with the valid credential and the installed version 2.0.0, equal
  to the version of the metadata record, the answer is the metadata with the signed URL,
  not \<open>{update: false}\<close>.
\<close>

theorem installed_version_counterexample:
  "map_of deployed_properties ''version'' = Some (JStr ''2.0.0'')
   \<and> map_of (headers (app_request [(''x-app-version'', ''2.0.0'')])) ''x-app-version''
       = Some ''2.0.0''
   \<and> fst (check (local_system deployed) (app_request [(''x-app-version'', ''2.0.0'')]))
       = \<lparr>status = 200, body = Json (JObj deployed_signed_properties)\<rparr>
   \<and> fst (check (local_system deployed) (app_request [(''x-app-version'', ''2.0.0'')]))
       \<noteq> \<lparr>status = 200, body = Json (JObj [(''update'', JBool False)])\<rparr>"
proof -
  have "fst (check (local_system deployed) (app_request [(''x-app-version'', ''2.0.0'')]))
       = \<lparr>status = 200, body = Json (JObj deployed_signed_properties)\<rparr>"
    by (rule deployed_signed) simp
  then show ?thesis
    by (simp add: deployed_properties_def deployed_signed_properties_def app_request_def)
qed

text \<open>
  C3, as the code has it. For a metadata record whose file URL is a string with no query
  and no fragment (no \<open>?\<close> and no \<open>#\<close>), the URL in the handler's answer is the file URL
  followed by \<open>?token=secure-signature\<close>, and the request of a download from that URL
  passes the guard.
\<close>

theorem signed_url_passes_guard:
  assumes auth: "map_of (headers req) ''authorization'' = Some ''Bearer my-secret-user''"
    and ex: "existsSync env (path_join env [STORAGE_PATH env, platform_of req, ''metadata.json''])"
    and rd: "read_metadata env (path_join env [STORAGE_PATH env, platform_of req, ''metadata.json''])
               = Inr (JObj md)"
    and url: "map_of md ''fileUrl'' = Some (JStr u)"
    and noq: "CHR ''?'' \<notin> set u"
    and nof: "CHR ''#'' \<notin> set u"
  shows "\<exists>b r. fst (check env req) = \<lparr>status = 200, body = Json (JObj b)\<rparr>
           \<and> map_of b ''fileUrl'' = Some (JStr (u @ ''?token=secure-signature''))
           \<and> download_request (u @ ''?token=secure-signature'') p hs = Some r
           \<and> fst (secureGuard r) = Next"
proof -
  have s: "signedUrl (JObj md) = Inr (u @ ''?token=secure-signature'')"
    by (simp add: signedUrl_def url template_def)
  have "fst (check env req)
          = \<lparr>status = 200,
             body = Json (JSON_stringify
               (signed_metadata (JObj md) (u @ ''?token=secure-signature'')))\<rparr>"
    by (rule check_signed [OF auth ex rd s])
  moreover have "map_of (map (\<lambda>p. (fst p, JSON_stringify (snd p)))
            (set_property md ''fileUrl'' (JStr (u @ ''?token=secure-signature''))))
          ''fileUrl'' = Some (JStr (u @ ''?token=secure-signature''))"
    by (simp add: map_of_stringify map_of_set_property)
  moreover have "fst (secureGuard
          \<lparr>headers = hs, path = p, query = [(''token'', QString ''secure-signature'')]\<rparr>) = Next"
    by (simp add: secureGuard_decision)
  ultimately show ?thesis
    using download_signed [OF noq nof, of p hs] by (simp add: signed_metadata_def)
qed

theorem signed_url_passes_guard_witness:
  "map_of (headers (app_request [])) ''authorization'' = Some ''Bearer my-secret-user''
   \<and> existsSync (local_system deployed)
     (path_join (local_system deployed)
        [STORAGE_PATH (local_system deployed), platform_of (app_request []), ''metadata.json''])
   \<and> read_metadata (local_system deployed)
       (path_join (local_system deployed)
          [STORAGE_PATH (local_system deployed), platform_of (app_request []), ''metadata.json''])
       = Inr (JObj deployed_properties)
   \<and> map_of deployed_properties ''fileUrl''
       = Some (JStr ''http://10.0.2.2:4000/files/android/update.zip'')
   \<and> CHR ''?'' \<notin> set ''http://10.0.2.2:4000/files/android/update.zip''
   \<and> CHR ''#'' \<notin> set ''http://10.0.2.2:4000/files/android/update.zip''
   \<and> (\<exists>b r. fst (check (local_system deployed) (app_request []))
                = \<lparr>status = 200, body = Json (JObj b)\<rparr>
          \<and> map_of b ''fileUrl''
                = Some (JStr (''http://10.0.2.2:4000/files/android/update.zip''
                              @ ''?token=secure-signature''))
          \<and> download_request
                (''http://10.0.2.2:4000/files/android/update.zip'' @ ''?token=secure-signature'')
                ''/android/update.zip'' [] = Some r
          \<and> fst (secureGuard r) = Next)"
proof -
  have p: "platform_of (app_request []) = ''android''"
    by (simp add: platform_of_def app_request_def)
  have a: "map_of (headers (app_request [])) ''authorization'' = Some ''Bearer my-secret-user''"
    by (simp add: app_request_def)
  have ex: "existsSync (local_system deployed)
     (path_join (local_system deployed)
        [STORAGE_PATH (local_system deployed), platform_of (app_request []), ''metadata.json''])"
    by (simp add: p local_system_android local_system_exists)
  have rd: "read_metadata (local_system deployed)
       (path_join (local_system deployed)
          [STORAGE_PATH (local_system deployed), platform_of (app_request []), ''metadata.json''])
       = Inr (JObj deployed_properties)"
    by (simp add: p local_system_android local_system_read deployed_def [symmetric])
  have u: "map_of deployed_properties ''fileUrl''
       = Some (JStr ''http://10.0.2.2:4000/files/android/update.zip'')"
    by (simp add: deployed_properties_def)
  have q: "CHR ''?'' \<notin> set ''http://10.0.2.2:4000/files/android/update.zip''" by simp
  have f: "CHR ''#'' \<notin> set ''http://10.0.2.2:4000/files/android/update.zip''" by simp
  from signed_url_passes_guard [OF a ex rd u q f, of "''/android/update.zip''" "[]"] a ex rd u q f
  show ?thesis by blast
qed

text \<open>
  C3, as stated, fails for a file URL that has no query but ends in a fragment: the token
  is appended after the \<open>#\<close>, the download request carries no query at all, and the
  guard answers 403.
\<close>

theorem url_fragment_counterexample:
  "CHR ''?'' \<notin> set ''http://10.0.2.2:4000/files/android/update.zip#v200''
   \<and> fst (check (local_system deployed_with_fragment) (app_request []))
       = \<lparr>status = 200, body = Json (JObj
           [(''version'', JStr ''2.0.0''),
            (''fileUrl'',
             JStr ''http://10.0.2.2:4000/files/android/update.zip#v200?token=secure-signature'')])\<rparr>
   \<and> download_request
         ''http://10.0.2.2:4000/files/android/update.zip#v200?token=secure-signature''
         ''/android/update.zip'' []
       = Some (file_request ''/android/update.zip'' [])
   \<and> fst (secureGuard (file_request ''/android/update.zip'' [])) = Responded forbidden"
proof -
  have p: "platform_of (app_request []) = ''android''"
    by (simp add: platform_of_def app_request_def)
  have a: "map_of (headers (app_request [])) ''authorization'' = Some ''Bearer my-secret-user''"
    by (simp add: app_request_def)
  have u: "signedUrl deployed_with_fragment
     = Inr ''http://10.0.2.2:4000/files/android/update.zip#v200?token=secure-signature''"
    by (simp add: signedUrl_def deployed_with_fragment_def template_def)
  have "fst (check (local_system deployed_with_fragment) (app_request [])) =
     \<lparr>status = 200, body = Json (JSON_stringify (signed_metadata deployed_with_fragment
        ''http://10.0.2.2:4000/files/android/update.zip#v200?token=secure-signature''))\<rparr>"
    by (rule check_signed [OF a _ _ u])
       (simp_all add: p local_system_android local_system_exists local_system_read)
  then have c: "fst (check (local_system deployed_with_fragment) (app_request []))
       = \<lparr>status = 200, body = Json (JObj
           [(''version'', JStr ''2.0.0''),
            (''fileUrl'',
             JStr ''http://10.0.2.2:4000/files/android/update.zip#v200?token=secure-signature'')])\<rparr>"
    by (simp add: signed_metadata_def deployed_with_fragment_def)
  have d: "download_request
         ''http://10.0.2.2:4000/files/android/update.zip#v200?token=secure-signature''
         ''/android/update.zip'' []
       = Some (file_request ''/android/update.zip'' [])"
    by (simp add: download_request_def url_query_def parse_query_def file_request_def)
  have g: "fst (secureGuard (file_request ''/android/update.zip'' [])) = Responded forbidden"
    by (simp add: secureGuard_decision file_request_def)
  from c d g show ?thesis by simp
qed

end
